theory Spec2Isabelle
  imports Complex_Main
begin

section \<open>Data model\<close>

text \<open>
  The script \<^verbatim>\<open>update_yasb_palette.py\<close> reads a pywal palette, picks an accent
  colour and rewrites two text files. Python strings are modelled as \<^typ>\<open>string\<close>
  (a \<^typ>\<open>char\<close> stands for a code point below 256), Python's unbounded integers as
  \<^typ>\<open>int\<close>, a \<^verbatim>\<open>Dict[str, str]\<close> as a map, and Python floats as exact
  \<^typ>\<open>real\<close> numbers: the rounding of IEEE arithmetic is not part of the model.
  Every exception the functions can raise is a value of type \<open>error\<close>.
\<close>

type_synonym rgb = "int \<times> int \<times> int"

type_synonym slots = "string \<rightharpoonup> string"

datatype failure =
    Unexpected_color_format string
  | No_usable_accent
  | Css_replacement_failed nat
  | No_config_entries
  | Colors_empty
  | No_background
  | Upstream string

datatype error = PaletteError failure | ValueError string | TemplateEscape

definition ACCENT_PRIORITY :: "string list" where
  "ACCENT_PRIORITY =
     [''color4'', ''color5'', ''color2'', ''color6'', ''color3'', ''color1'', ''color7'']"

definition LUMINANCE_TARGET :: real where
  "LUMINANCE_TARGET = 45 / 100"

definition LUMINANCE_TOLERANCE :: real where
  "LUMINANCE_TOLERANCE = 25 / 100"

definition MIN_CONTRAST :: real where
  "MIN_CONTRAST = 25 / 100"

section \<open>Characters\<close>

text \<open>
  \<open>is_space\<close> is the class \<^verbatim>\<open>\s\<close> of the \<^verbatim>\<open>re\<close> module on \<^verbatim>\<open>str\<close> patterns and the
  white space that \<^verbatim>\<open>int(s, 16)\<close> strips, restricted to code points below 256:
  TAB, LF, VT, FF, CR, FS, GS, RS, US, space, NEL and NBSP.
\<close>

definition is_space :: "char \<Rightarrow> bool" where
  "is_space c \<longleftrightarrow>
     (of_char c :: nat) \<in> {9, 10, 11, 12, 13, 28, 29, 30, 31, 32, 133, 160}"

definition is_digit :: "char \<Rightarrow> bool" where
  "is_digit c \<longleftrightarrow> c \<in> set ''0123456789''"

definition is_hexdigit :: "char \<Rightarrow> bool" where
  "is_hexdigit c \<longleftrightarrow> c \<in> set ''0123456789abcdefABCDEF''"

definition hex_val :: "char \<Rightarrow> int" where
  "hex_val c =
     (if c \<in> set ''0123456789'' then of_char c - 48
      else if c \<in> set ''abcdef'' then of_char c - 87
      else of_char c - 55)"

text \<open>
  \<^verbatim>\<open>int(s, 16)\<close> on a string of two characters. Besides two hex digits Python accepts
  one hex digit with a sign in front, or with white space on either side; everything
  else raises \<^verbatim>\<open>ValueError\<close>, which is \<open>None\<close> here.
\<close>

definition int16_pair :: "char \<Rightarrow> char \<Rightarrow> int option" where
  "int16_pair a b =
     (if is_hexdigit a \<and> is_hexdigit b then Some (16 * hex_val a + hex_val b)
      else if is_hexdigit a \<and> is_space b then Some (hex_val a)
      else if is_space a \<and> is_hexdigit b then Some (hex_val b)
      else if a = CHR ''+'' \<and> is_hexdigit b then Some (hex_val b)
      else if a = CHR ''-'' \<and> is_hexdigit b then Some (- hex_val b)
      else None)"

section \<open>Colour conversion\<close>

text \<open>
  \<^verbatim>\<open>hex_to_rgb\<close>, lines 228 to 233: \<^verbatim>\<open>lstrip("#")\<close> removes every leading \<^verbatim>\<open>#\<close>,
  a length other than six raises \<^verbatim>\<open>PaletteError\<close>, and the three pairs are parsed from
  left to right, so the first pair that \<^verbatim>\<open>int\<close> rejects raises \<^verbatim>\<open>ValueError\<close>.
\<close>

definition hex_to_rgb :: "string \<Rightarrow> error + rgb" where
  "hex_to_rgb hex_color =
     (let cleaned = dropWhile (\<lambda>c. c = CHR ''#'') hex_color in
      if length cleaned \<noteq> 6 then Inl (PaletteError (Unexpected_color_format hex_color))
      else
        (case int16_pair (cleaned ! 0) (cleaned ! 1) of
           None \<Rightarrow> Inl (ValueError (take 2 cleaned))
         | Some r \<Rightarrow>
        (case int16_pair (cleaned ! 2) (cleaned ! 3) of
           None \<Rightarrow> Inl (ValueError (take 2 (drop 2 cleaned)))
         | Some g \<Rightarrow>
        (case int16_pair (cleaned ! 4) (cleaned ! 5) of
           None \<Rightarrow> Inl (ValueError (take 2 (drop 4 cleaned)))
         | Some b \<Rightarrow> Inr (r, g, b)))))"

text \<open>\<^verbatim>\<open>relative_luminance\<close>, lines 236 to 239.\<close>

definition relative_luminance :: "rgb \<Rightarrow> real" where
  "relative_luminance rgb =
     (case rgb of (r, g, b) \<Rightarrow>
        2126 / 10000 * (real_of_int r / 255) + 7152 / 10000 * (real_of_int g / 255)
          + 722 / 10000 * (real_of_int b / 255))"

section \<open>Accent selection\<close>

text \<open>
  \<^verbatim>\<open>candidate_colors\<close>, lines 255 to 262. \<^verbatim>\<open>if hex_color:\<close> is false for a missing key
  (\<^verbatim>\<open>None\<close>) and for the empty string.
\<close>

definition truthy :: "string option \<Rightarrow> bool" where
  "truthy v = (case v of None \<Rightarrow> False | Some s \<Rightarrow> s \<noteq> [])"

definition candidate_colors :: "slots \<Rightarrow> slots \<Rightarrow> string list" where
  "candidate_colors colors special =
     concat (map (\<lambda>key. if truthy (colors key) then [the (colors key)] else []) ACCENT_PRIORITY)
       @ (if truthy (special ''foreground'') then [the (special ''foreground'')] else [])"

text \<open>
  The loop of lines 266 to 270 builds \<^verbatim>\<open>ranked\<close>; \<^verbatim>\<open>hex_to_rgb\<close> may raise on a
  candidate, and then nothing is selected.
\<close>

fun rank :: "real \<Rightarrow> string list \<Rightarrow> error + (string \<times> real \<times> real) list" where
  "rank background_lum [] = Inr []"
| "rank background_lum (hex_color # rest) =
     (case hex_to_rgb hex_color of
        Inl e \<Rightarrow> Inl e
      | Inr rgb \<Rightarrow>
          (case rank background_lum rest of
             Inl e \<Rightarrow> Inl e
           | Inr ranked \<Rightarrow>
               (let lum = relative_luminance rgb; contrast = \<bar>lum - background_lum\<bar>
                in Inr ((hex_color, lum, contrast) # ranked))))"

definition target_low :: real where
  "target_low = max 0 (LUMINANCE_TARGET - LUMINANCE_TOLERANCE)"

definition target_high :: real where
  "target_high = min 1 (LUMINANCE_TARGET + LUMINANCE_TOLERANCE)"

text \<open>The test of line 279.\<close>

definition in_band :: "string \<times> real \<times> real \<Rightarrow> bool" where
  "in_band item =
     (case item of (hex_color, lum, contrast) \<Rightarrow>
        target_low \<le> lum \<and> lum \<le> target_high \<and> contrast \<ge> MIN_CONTRAST)"

text \<open>
  Python's \<^verbatim>\<open>min(ranked, key=...)\<close>: the first element is the best so far, and a later
  element replaces it only when its key is strictly smaller.
\<close>

fun min_by :: "('a \<Rightarrow> real) \<Rightarrow> 'a \<Rightarrow> 'a list \<Rightarrow> 'a" where
  "min_by key best [] = best"
| "min_by key best (x # xs) = min_by key (if key x < key best then x else best) xs"

definition closeness :: "string \<times> real \<times> real \<Rightarrow> real" where
  "closeness item = \<bar>fst (snd item) - LUMINANCE_TARGET\<bar>"

text \<open>Lines 255 to 287: the selection that runs when the override did not return.\<close>

definition select_accent :: "slots \<Rightarrow> slots \<Rightarrow> rgb \<Rightarrow> error + string" where
  "select_accent colors special background_rgb =
     (case rank (relative_luminance background_rgb) (candidate_colors colors special) of
        Inl e \<Rightarrow> Inl e
      | Inr ranked \<Rightarrow>
          (case ranked of
             [] \<Rightarrow> Inl (PaletteError No_usable_accent)
           | first # others \<Rightarrow>
               (case find in_band ranked of
                  Some item \<Rightarrow> Inr (fst item)
                | None \<Rightarrow> Inr (fst (min_by closeness first others)))))"

text \<open>
  \<^verbatim>\<open>choose_accent\<close>, lines 242 to 287. The value of the environment variable
  \<^verbatim>\<open>YASB_ACCENT_SLOT\<close> is the argument \<open>env_slot\<close>: \<open>None\<close> when it is not set.
  Lines 248 to 250 return the slot's value when both \<^verbatim>\<open>if env_slot:\<close> and
  \<^verbatim>\<open>if candidate:\<close> hold.
\<close>

definition override_in_effect :: "string option \<Rightarrow> slots \<Rightarrow> bool" where
  "override_in_effect env_slot colors = (truthy env_slot \<and> truthy (colors (the env_slot)))"

definition choose_accent :: "string option \<Rightarrow> slots \<Rightarrow> slots \<Rightarrow> rgb \<Rightarrow> error + string" where
  "choose_accent env_slot colors special background_rgb =
     (if override_in_effect env_slot colors then Inr (the (colors (the env_slot)))
      else select_accent colors special background_rgb)"

section \<open>Text substitution\<close>

text \<open>
  A pattern is modelled by its matcher: given the text from some position on, the length
  of the match that starts there, if there is one. None of the four patterns of the
  script looks behind the position or matches the empty string.
\<close>

type_synonym matcher = "string \<Rightarrow> nat option"

fun strip_prefix :: "string \<Rightarrow> string \<Rightarrow> string option" where
  "strip_prefix [] s = Some s"
| "strip_prefix (p # ps) [] = None"
| "strip_prefix (p # ps) (c # cs) = (if p = c then strip_prefix ps cs else None)"

text \<open>
  \<^verbatim>\<open>--accent:\s*#[0-9a-fA-F]{6};\<close> The greedy \<^verbatim>\<open>\s*\<close> takes all the white space, since
  the next character of the pattern is not white space.
\<close>

definition match_accent :: matcher where
  "match_accent s =
     (case strip_prefix ''--accent:'' s of
        None \<Rightarrow> None
      | Some r \<Rightarrow>
          (let ws = takeWhile is_space r; t = dropWhile is_space r in
           if 8 \<le> length t \<and> t ! 0 = CHR ''#'' \<and> list_all is_hexdigit (take 6 (drop 1 t))
              \<and> t ! 7 = CHR '';''
           then Some (9 + length ws + 8) else None))"

text \<open>
  \<^verbatim>\<open>--accent-rgb:\s*[0-9\s,]+;\<close> White space belongs to the class as well, so
  \<^verbatim>\<open>\s*[0-9\s,]+\<close> consumes the longest run of class characters, which must not be
  empty and must be followed by the semicolon.
\<close>

definition is_rgb_char :: "char \<Rightarrow> bool" where
  "is_rgb_char c \<longleftrightarrow> is_digit c \<or> is_space c \<or> c = CHR '',''"

definition match_accent_rgb :: matcher where
  "match_accent_rgb s =
     (case strip_prefix ''--accent-rgb:'' s of
        None \<Rightarrow> None
      | Some r \<Rightarrow>
          (let run = takeWhile is_rgb_char r; t = dropWhile is_rgb_char r in
           if run \<noteq> [] \<and> t \<noteq> [] \<and> hd t = CHR '';''
           then Some (13 + length run + 1) else None))"

text \<open>
  \<^verbatim>\<open>--yasb-background:\s*rgba\([^;]+;\<close> The negated class also matches line breaks,
  so the match runs to the next semicolon of the text, wherever it is.
\<close>

definition match_background :: matcher where
  "match_background s =
     (case strip_prefix ''--yasb-background:'' s of
        None \<Rightarrow> None
      | Some r \<Rightarrow>
          (let ws = takeWhile is_space r in
           case strip_prefix ''rgba('' (dropWhile is_space r) of
             None \<Rightarrow> None
           | Some u \<Rightarrow>
               (let body = takeWhile (\<lambda>c. c \<noteq> CHR '';'') u;
                    t = dropWhile (\<lambda>c. c \<noteq> CHR '';'') u in
                if body \<noteq> [] \<and> t \<noteq> []
                then Some (18 + length ws + 5 + length body + 1) else None)))"

text \<open>\<^verbatim>\<open>'color': '#[0-9a-fA-F]{6}'\<close>, the pattern of \<^verbatim>\<open>update_config\<close>.\<close>

definition color_entry_head :: string where
  "color_entry_head = CHR 0x27 # ''color'' @ CHR 0x27 # '': '' @ CHR 0x27 # ''#''"

definition match_color_entry :: matcher where
  "match_color_entry s =
     (case strip_prefix color_entry_head s of
        None \<Rightarrow> None
      | Some r \<Rightarrow>
          (if 7 \<le> length r \<and> list_all is_hexdigit (take 6 r) \<and> r ! 6 = CHR 0x27
           then Some 18 else None))"

text \<open>
  \<^verbatim>\<open>re.subn(pattern, repl, text, count=1)\<close>: the text is scanned from the left, the
  first position where the pattern matches is replaced, and the count is 1; without a
  match the text comes back with count 0.
\<close>

fun subn_first :: "matcher \<Rightarrow> string \<Rightarrow> string \<Rightarrow> string \<times> nat" where
  "subn_first m repl [] = ([], 0)"
| "subn_first m repl (c # cs) =
     (case m (c # cs) of
        Some n \<Rightarrow> (repl @ drop n (c # cs), 1)
      | None \<Rightarrow> (case subn_first m repl cs of (t, k) \<Rightarrow> (c # t, k)))"

text \<open>
  \<^verbatim>\<open>re.subn(pattern, repl, text)\<close>: every match found by scanning on from the end of
  the previous match is replaced. The first argument counts the characters of the
  current match that are still to be skipped.
\<close>

fun subn_all :: "matcher \<Rightarrow> string \<Rightarrow> nat \<Rightarrow> string \<Rightarrow> string \<times> nat" where
  "subn_all m repl skip [] = ([], 0)"
| "subn_all m repl (Suc skip) (c # cs) = subn_all m repl skip cs"
| "subn_all m repl 0 (c # cs) =
     (case m (c # cs) of
        Some n \<Rightarrow> (case subn_all m repl (n - 1) cs of (t, k) \<Rightarrow> (repl @ t, Suc k))
      | None \<Rightarrow> (case subn_all m repl 0 cs of (t, k) \<Rightarrow> (c # t, k)))"

section \<open>Formatting\<close>

text \<open>\<^verbatim>\<open>str(n)\<close> of an integer, as the f-strings of \<^verbatim>\<open>update_css\<close> print it.\<close>

definition digit_char :: "nat \<Rightarrow> char" where
  "digit_char d = ''0123456789'' ! d"

function show_nat :: "nat \<Rightarrow> string" where
  "show_nat n = (if n < 10 then [digit_char n] else show_nat (n div 10) @ [digit_char (n mod 10)])"
  by pat_completeness auto
termination
  by (relation "measure id") auto

declare show_nat.simps [simp del]

definition show_int :: "int \<Rightarrow> string" where
  "show_int i = (if i < 0 then CHR ''-'' # show_nat (nat (- i)) else show_nat (nat i))"

text \<open>
  \<^verbatim>\<open>str.lower()\<close> on code points below 256: the letters A to Z and the capital
  letters of Latin-1 (192 to 222 without the multiplication sign 215) move up by 32.
\<close>

definition lower_char :: "char \<Rightarrow> char" where
  "lower_char c =
     (let n = (of_char c :: nat) in
      if (65 \<le> n \<and> n \<le> 90) \<or> (192 \<le> n \<and> n \<le> 222 \<and> n \<noteq> 215) then char_of (n + 32) else c)"

definition lower :: "string \<Rightarrow> string" where
  "lower s = map lower_char s"

section \<open>The two target files\<close>

text \<open>
  The state of the script is the text of the two files it rewrites, \<^verbatim>\<open>CSS_PATH\<close>
  and \<^verbatim>\<open>CONFIG_PATH\<close>. Each function returns its result, or the exception it
  raised, together with the files as it left them.
\<close>

record files =
  css :: string
  config :: string

definition accent_replacement :: "string \<Rightarrow> string" where
  "accent_replacement accent_hex = ''--accent: '' @ accent_hex @ '';''"

definition accent_rgb_replacement :: "rgb \<Rightarrow> string" where
  "accent_rgb_replacement accent_rgb =
     (case accent_rgb of (r, g, b) \<Rightarrow>
        ''--accent-rgb: '' @ show_int r @ '', '' @ show_int g @ '', '' @ show_int b @ '';'')"

definition background_replacement :: "rgb \<Rightarrow> string" where
  "background_replacement background_rgb =
     (case background_rgb of (r, g, b) \<Rightarrow>
        ''--yasb-background: rgba('' @ show_int r @ '', '' @ show_int g @ '', '' @ show_int b
          @ '', 0.72);'')"

text \<open>
  The dictionary \<^verbatim>\<open>replacements\<close> of lines 295 to 299, in insertion order, which is
  the order the loop of line 301 visits it in.
\<close>

definition replacements :: "string \<Rightarrow> rgb \<Rightarrow> rgb \<Rightarrow> (matcher \<times> string) list" where
  "replacements accent_hex accent_rgb background_rgb =
     [(match_accent, accent_replacement accent_hex),
      (match_accent_rgb, accent_rgb_replacement accent_rgb),
      (match_background, background_replacement background_rgb)]"

text \<open>
  The loop of lines 301 to 304; \<open>k\<close> numbers the pattern for the error message.
\<close>

fun apply_replacements :: "nat \<Rightarrow> (matcher \<times> string) list \<Rightarrow> string \<Rightarrow> error + string" where
  "apply_replacements k [] text = Inr text"
| "apply_replacements k ((m, repl) # rest) text =
     (case subn_first m repl text of
        (text', count) \<Rightarrow>
          if count \<noteq> 1 then Inl (PaletteError (Css_replacement_failed k))
          else apply_replacements (Suc k) rest text')"

text \<open>
  \<^verbatim>\<open>update_css\<close>, lines 290 to 307. The replacement strings are templates for the
  \<^verbatim>\<open>re\<close> module, where only a backslash is special; \<^verbatim>\<open>hex_to_rgb\<close> has accepted
  \<open>accent_hex\<close> before the first substitution, so it holds no backslash, and the
  templates stand for themselves. The file is written after the loop.
\<close>

definition update_css :: "string \<Rightarrow> rgb \<Rightarrow> files \<Rightarrow> (error + unit) \<times> files" where
  "update_css accent_hex background_rgb fs =
     (case hex_to_rgb accent_hex of
        Inl e \<Rightarrow> (Inl e, fs)
      | Inr accent_rgb \<Rightarrow>
          (case apply_replacements 0 (replacements accent_hex accent_rgb background_rgb) (css fs) of
             Inl e \<Rightarrow> (Inl e, fs)
           | Inr text \<Rightarrow> (Inr (), fs\<lparr>css := text\<rparr>)))"

text \<open>
  \<^verbatim>\<open>update_config\<close>, lines 310 to 317. The result is the count that line 317
  prints. A replacement with a backslash in it would be expanded as a template by the
  \<^verbatim>\<open>re\<close> module; that expansion is not modelled and is the outcome
  \<open>TemplateEscape\<close>. \<^verbatim>\<open>main\<close> never passes such a string, because
  \<^verbatim>\<open>update_css\<close> has accepted it before.
\<close>

definition color_entry_replacement :: "string \<Rightarrow> string" where
  "color_entry_replacement accent_hex =
     CHR 0x27 # ''color'' @ CHR 0x27 # '': '' @ CHR 0x27 # accent_hex @ [CHR 0x27]"

definition update_config :: "string \<Rightarrow> files \<Rightarrow> (error + nat) \<times> files" where
  "update_config accent_hex fs =
     (if CHR 0x5C \<in> set accent_hex then (Inl TemplateEscape, fs)
      else
        (case subn_all match_color_entry (color_entry_replacement accent_hex) 0 (config fs) of
           (yaml_text, count) \<Rightarrow>
             if count = 0 then (Inl (PaletteError No_config_entries), fs)
             else (Inr count, fs\<lparr>config := yaml_text\<rparr>)))"

section \<open>The pipeline\<close>

text \<open>
  \<^verbatim>\<open>main\<close>, lines 320 to 346. What \<^verbatim>\<open>ensure_paths\<close>, \<^verbatim>\<open>get_wallpaper_path\<close> and
  \<^verbatim>\<open>generate_palette\<close> do is input and output outside the model: their joint result,
  a \<^verbatim>\<open>PaletteError\<close> or the palette, is the argument \<open>loaded\<close>. \<^verbatim>\<open>main\<close> returns 0, or
  1 after a \<^verbatim>\<open>PaletteError\<close>; any other exception leaves it uncaught.
\<close>

type_synonym palette = "string \<rightharpoonup> slots"

datatype outcome = Returned nat | Uncaught error

definition main :: "string option \<Rightarrow> failure + palette \<Rightarrow> files \<Rightarrow> outcome \<times> files" where
  "main env_slot loaded fs =
     (case loaded of
        Inl f \<Rightarrow> (Returned 1, fs)
      | Inr palette \<Rightarrow>
          (let colors = (case palette ''colors'' of None \<Rightarrow> Map.empty | Some c \<Rightarrow> c);
               special = (case palette ''special'' of None \<Rightarrow> Map.empty | Some s \<Rightarrow> s)
           in
           if colors = Map.empty then (Returned 1, fs)
           else if \<not> truthy (special ''background'') then (Returned 1, fs)
           else
             (case hex_to_rgb (the (special ''background'')) of
                Inl (PaletteError f) \<Rightarrow> (Returned 1, fs)
              | Inl e \<Rightarrow> (Uncaught e, fs)
              | Inr background_rgb \<Rightarrow>
             (case choose_accent env_slot colors special background_rgb of
                Inl (PaletteError f) \<Rightarrow> (Returned 1, fs)
              | Inl e \<Rightarrow> (Uncaught e, fs)
              | Inr accent_hex \<Rightarrow>
             (case update_css (lower accent_hex) background_rgb fs of
                (Inl (PaletteError f), fs1) \<Rightarrow> (Returned 1, fs1)
              | (Inl e, fs1) \<Rightarrow> (Uncaught e, fs1)
              | (Inr u, fs1) \<Rightarrow>
             (case update_config (lower accent_hex) fs1 of
                (Inl (PaletteError f), fs2) \<Rightarrow> (Returned 1, fs2)
              | (Inl e, fs2) \<Rightarrow> (Uncaught e, fs2)
              | (Inr count, fs2) \<Rightarrow> (Returned 0, fs2)))))))"

section \<open>Vocabulary of the properties\<close>

text \<open>
  The properties speak of the luminance of a candidate, which exists for the strings
  that \<open>hex_to_rgb\<close> accepts. The following definitions name those notions in terms of
  the functions above.
\<close>

definition well_formed :: "string \<Rightarrow> bool" where
  "well_formed hex_color = (\<not> isl (hex_to_rgb hex_color))"

definition luminance_of :: "string \<Rightarrow> real" where
  "luminance_of hex_color = relative_luminance (projr (hex_to_rgb hex_color))"

definition qualifies :: "rgb \<Rightarrow> string \<Rightarrow> bool" where
  "qualifies background_rgb hex_color =
     (target_low \<le> luminance_of hex_color \<and> luminance_of hex_color \<le> target_high \<and>
      \<bar>luminance_of hex_color - relative_luminance background_rgb\<bar> \<ge> MIN_CONTRAST)"

definition distance :: "string \<Rightarrow> real" where
  "distance hex_color = \<bar>luminance_of hex_color - LUMINANCE_TARGET\<bar>"


text \<open>A colour string in the form the palette and the target files use it in.\<close>

definition valid_hex_color :: "string \<Rightarrow> bool" where
  "valid_hex_color s =
     (case s of [] \<Rightarrow> False | c # cs \<Rightarrow> c = CHR ''#'' \<and> length cs = 6 \<and> list_all is_hexdigit cs)"

text \<open>
  Modelled from the spec: the inverse of \<open>hex_to_rgb\<close>, which the source does not
  contain. It prints a triple as \<^verbatim>\<open>#\<close> and two lowercase hex digits for each channel.
\<close>

definition hex_digit_char :: "nat \<Rightarrow> char" where
  "hex_digit_char d = ''0123456789abcdef'' ! d"

definition hex2 :: "int \<Rightarrow> string" where
  "hex2 v = [hex_digit_char (nat v div 16 mod 16), hex_digit_char (nat v mod 16)]"

definition rgb_to_hex :: "rgb \<Rightarrow> string" where
  "rgb_to_hex rgb = (case rgb of (r, g, b) \<Rightarrow> CHR ''#'' # hex2 r @ hex2 g @ hex2 b)"

text \<open>
  The vocabulary for the substitutions. \<open>no_match m s\<close>: the pattern matches at no
  position of \<open>s\<close>. \<open>first_match m s pre mid post\<close>: \<open>mid\<close> is the leftmost match of the
  pattern in \<open>s\<close>, after \<open>pre\<close> and before \<open>post\<close>. \<open>all_replaced m repl s t k\<close>: \<open>t\<close> is
  \<open>s\<close> with the \<open>k\<close> matches replaced by \<open>repl\<close> that a scan from the left finds when it
  goes on behind each match.
\<close>

definition no_match :: "matcher \<Rightarrow> string \<Rightarrow> bool" where
  "no_match m s = list_all (\<lambda>k. m (drop k s) = None) [0..<length s]"

definition first_match :: "matcher \<Rightarrow> string \<Rightarrow> string \<Rightarrow> string \<Rightarrow> string \<Rightarrow> bool" where
  "first_match m s pre mid post \<longleftrightarrow>
     s = pre @ mid @ post \<and> m (mid @ post) = Some (length mid) \<and>
     list_all (\<lambda>k. m (drop k s) = None) [0..<length pre]"

inductive all_replaced :: "matcher \<Rightarrow> string \<Rightarrow> string \<Rightarrow> string \<Rightarrow> nat \<Rightarrow> bool"
  for m :: matcher and repl :: string where
  none: "no_match m s \<Longrightarrow> all_replaced m repl s s 0"
| step: "first_match m s pre mid post \<Longrightarrow> all_replaced m repl post t k \<Longrightarrow>
         all_replaced m repl s (pre @ repl @ t) (Suc k)"


section \<open>Lemmas on the accent selection\<close>


lemma rank_Inr_well_formed:
  "rank bl cands = Inr ranked \<Longrightarrow> list_all well_formed cands"
  by (induction cands arbitrary: ranked) (auto simp: well_formed_def split: sum.splits)







lemmas accent_eval =
  choose_accent_def override_in_effect_def select_accent_def candidate_colors_def
  ACCENT_PRIORITY_def truthy_def hex_to_rgb_def int16_pair_def is_hexdigit_def is_space_def
  hex_val_def relative_luminance_def in_band_def target_low_def target_high_def
  LUMINANCE_TARGET_def LUMINANCE_TOLERANCE_def MIN_CONTRAST_def closeness_def
  well_formed_def luminance_of_def qualifies_def distance_def Let_def


lemma candidate_slot_empty:
  "(if truthy ((m(key \<mapsto> [])) k) then [the ((m(key \<mapsto> [])) k)] else []) =
   (if truthy ((m(key := None)) k) then [the ((m(key := None)) k)] else [])"
  by (simp add: truthy_def)

section \<open>Lemmas on the colour conversion\<close>

lemma hexdigit_all:
  "list_all (\<lambda>c. 0 \<le> hex_val c \<and> hex_val c < 16 \<and> hex_digit_char (nat (hex_val c)) = lower_char c)
     ''0123456789abcdefABCDEF''"
  by (simp add: hex_val_def lower_char_def hex_digit_char_def char_of_def bit_0)

lemma hexdigit_cases:
  "is_hexdigit c \<Longrightarrow> 0 \<le> hex_val c \<and> hex_val c < 16 \<and> hex_digit_char (nat (hex_val c)) = lower_char c"
  using hexdigit_all unfolding is_hexdigit_def list_all_iff by blast

lemma hex2_pair:
  assumes "is_hexdigit a" "is_hexdigit b"
  shows "int16_pair a b = Some (16 * hex_val a + hex_val b)"
    and "hex2 (16 * hex_val a + hex_val b) = [lower_char a, lower_char b]"
    and "0 \<le> 16 * hex_val a + hex_val b" and "16 * hex_val a + hex_val b \<le> 255"
proof -
  from hexdigit_cases [OF assms(1)] obtain x where x: "hex_val a = int x" "x < 16"
    "hex_digit_char x = lower_char a"
    by (metis nat_0_le nat_less_iff zless_nat_conj nat_int of_nat_numeral)
  from hexdigit_cases [OF assms(2)] obtain y where y: "hex_val b = int y" "y < 16"
    "hex_digit_char y = lower_char b"
    by (metis nat_0_le nat_less_iff zless_nat_conj nat_int of_nat_numeral)
  show "int16_pair a b = Some (16 * hex_val a + hex_val b)"
    using assms by (simp add: int16_pair_def)
  have n: "nat (16 * hex_val a + hex_val b) = 16 * x + y"
    using x y by (simp add: nat_add_distrib nat_mult_distrib)
  show "hex2 (16 * hex_val a + hex_val b) = [lower_char a, lower_char b]"
    unfolding hex2_def n using x y by simp
  show "0 \<le> 16 * hex_val a + hex_val b" using x y by simp
  show "16 * hex_val a + hex_val b \<le> 255" using x y by simp
qed

lemma hexdigit_not_hash: "is_hexdigit c \<Longrightarrow> c \<noteq> CHR ''#''"
  by (auto simp: is_hexdigit_def)

lemma valid_hex_color_decomp:
  "valid_hex_color s \<longleftrightarrow>
     (\<exists>a b c d e f. s = [CHR ''#'', a, b, c, d, e, f] \<and> is_hexdigit a \<and> is_hexdigit b \<and>
        is_hexdigit c \<and> is_hexdigit d \<and> is_hexdigit e \<and> is_hexdigit f)"
proof
  assume "valid_hex_color s"
  then obtain cs where s: "s = CHR ''#'' # cs" and l: "length cs = 6" and h: "list_all is_hexdigit cs"
    by (cases s) (auto simp: valid_hex_color_def)
  from l obtain a b c d e f where "cs = [a, b, c, d, e, f]"
    by (auto simp: length_Suc_conv eval_nat_numeral)
  with s h show "\<exists>a b c d e f. s = [CHR ''#'', a, b, c, d, e, f] \<and> is_hexdigit a \<and> is_hexdigit b \<and>
        is_hexdigit c \<and> is_hexdigit d \<and> is_hexdigit e \<and> is_hexdigit f" by simp
next
  assume "\<exists>a b c d e f. s = [CHR ''#'', a, b, c, d, e, f] \<and> is_hexdigit a \<and> is_hexdigit b \<and>
        is_hexdigit c \<and> is_hexdigit d \<and> is_hexdigit e \<and> is_hexdigit f"
  then show "valid_hex_color s" by (auto simp: valid_hex_color_def)
qed

lemma hex_to_rgb_valid:
  assumes "is_hexdigit a" "is_hexdigit b" "is_hexdigit c" "is_hexdigit d" "is_hexdigit e" "is_hexdigit f"
  shows "hex_to_rgb [CHR ''#'', a, b, c, d, e, f] =
           Inr (16 * hex_val a + hex_val b, 16 * hex_val c + hex_val d, 16 * hex_val e + hex_val f)"
  using hexdigit_not_hash [OF assms(1)] hex2_pair(1) [OF assms(1,2)] hex2_pair(1) [OF assms(3,4)]
    hex2_pair(1) [OF assms(5,6)]
  by (simp add: hex_to_rgb_def)

section \<open>Properties of the accent selection\<close>










text \<open>
  C10. An empty string counts as absent: a slot or a special foreground with the empty
  string enumerates like a missing one, an override that names a slot holding the
  empty string gives the result of the normal selection, and so does an override
  variable that is the empty string.
\<close>

theorem choose_accent_empty_is_absent:
  "candidate_colors (colors(key \<mapsto> [])) special = candidate_colors (colors(key := None)) special \<and>
   candidate_colors colors (special(''foreground'' \<mapsto> [])) =
     candidate_colors colors (special(''foreground'' := None)) \<and>
   choose_accent (Some slot) (colors(slot \<mapsto> [])) special bg =
     choose_accent None (colors(slot \<mapsto> [])) special bg \<and>
   choose_accent (Some []) colors special bg = choose_accent None colors special bg"
proof (intro conjI)
  show "candidate_colors (colors(key \<mapsto> [])) special = candidate_colors (colors(key := None)) special"
    unfolding candidate_colors_def by (simp only: candidate_slot_empty)
  show "candidate_colors colors (special(''foreground'' \<mapsto> [])) =
          candidate_colors colors (special(''foreground'' := None))"
    unfolding candidate_colors_def by (simp only: candidate_slot_empty)
  show "choose_accent (Some slot) (colors(slot \<mapsto> [])) special bg =
          choose_accent None (colors(slot \<mapsto> [])) special bg"
    by (simp add: choose_accent_def override_in_effect_def truthy_def)
  show "choose_accent (Some []) colors special bg = choose_accent None colors special bg"
    by (simp add: choose_accent_def override_in_effect_def truthy_def)
qed

theorem choose_accent_empty_is_absent_witness:
  "candidate_colors [''color4'' \<mapsto> ''#112233'', ''color5'' \<mapsto> ''''] Map.empty =
     candidate_colors ([''color4'' \<mapsto> ''#112233''](''color5'' := None)) Map.empty \<and>
   candidate_colors [''color4'' \<mapsto> ''#112233'', ''color5'' \<mapsto> ''''] Map.empty = [''#112233''] \<and>
   choose_accent (Some '''') [''color4'' \<mapsto> ''#112233''] Map.empty (0, 0, 0) =
     choose_accent None [''color4'' \<mapsto> ''#112233''] Map.empty (0, 0, 0) \<and>
   choose_accent (Some '''') [''color4'' \<mapsto> ''#112233''] Map.empty (0, 0, 0) = Inr ''#112233''"
proof (intro conjI)
  note t = choose_accent_empty_is_absent [where colors = "[''color4'' \<mapsto> ''#112233'']"
      and key = "''color5''" and special = Map.empty and slot = "''color5''" and bg = "(0, 0, 0)"]
  show "candidate_colors [''color4'' \<mapsto> ''#112233'', ''color5'' \<mapsto> ''''] Map.empty =
     candidate_colors ([''color4'' \<mapsto> ''#112233''](''color5'' := None)) Map.empty"
    using t by blast
  show "candidate_colors [''color4'' \<mapsto> ''#112233'', ''color5'' \<mapsto> ''''] Map.empty = [''#112233'']"
    by (simp add: candidate_colors_def ACCENT_PRIORITY_def truthy_def)
  show "choose_accent (Some '''') [''color4'' \<mapsto> ''#112233''] Map.empty (0, 0, 0) =
     choose_accent None [''color4'' \<mapsto> ''#112233''] Map.empty (0, 0, 0)"
    using t by blast
  show "choose_accent (Some '''') [''color4'' \<mapsto> ''#112233''] Map.empty (0, 0, 0) = Inr ''#112233''"
    by (simp add: accent_eval)
qed

section \<open>Properties of the colour conversion\<close>

text \<open>
  C9, as amended. For a colour string of \<^verbatim>\<open>#\<close> and six hex digits, converting to a
  triple and printing the triple gives the string in lower case: the string itself
  when it has no capital digit.
\<close>

theorem hex_round_trip_lower:
  assumes "valid_hex_color s"
  shows "\<exists>t. hex_to_rgb s = Inr t \<and> rgb_to_hex t = lower s \<and> (lower s = s \<longrightarrow> rgb_to_hex t = s)"
proof -
  from assms obtain a b c d e f where s: "s = [CHR ''#'', a, b, c, d, e, f]"
    and h: "is_hexdigit a" "is_hexdigit b" "is_hexdigit c" "is_hexdigit d" "is_hexdigit e" "is_hexdigit f"
    unfolding valid_hex_color_decomp by blast
  let ?t = "(16 * hex_val a + hex_val b, 16 * hex_val c + hex_val d, 16 * hex_val e + hex_val f)"
  have 1: "hex_to_rgb s = Inr ?t" unfolding s by (rule hex_to_rgb_valid [OF h])
  have hash: "lower_char CHR ''#'' = CHR ''#''" by (simp add: lower_char_def)
  have 2: "rgb_to_hex ?t = lower s"
    unfolding s by (simp add: rgb_to_hex_def lower_def hash hex2_pair(2) h)
  from 1 2 show ?thesis by simp
qed

theorem hex_round_trip_lower_witness:
  "valid_hex_color ''#3a6ea5'' \<and> hex_to_rgb ''#3a6ea5'' = Inr (58, 110, 165) \<and>
   rgb_to_hex (58, 110, 165) = ''#3a6ea5''"
proof -
  have v: "valid_hex_color ''#3a6ea5''"
    by (simp add: valid_hex_color_def is_hexdigit_def)
  have h: "hex_to_rgb ''#3a6ea5'' = Inr (58, 110, 165)"
    by (simp add: hex_to_rgb_def int16_pair_def is_hexdigit_def hex_val_def)
  have l: "lower ''#3a6ea5'' = ''#3a6ea5''"
    by (simp add: lower_def lower_char_def)
  from hex_round_trip_lower [OF v] h l show ?thesis using v by auto
qed

theorem hex_round_trip_counterexample:
  "valid_hex_color ''#AABBCC'' \<and> hex_to_rgb ''#AABBCC'' = Inr (170, 187, 204) \<and>
   hex_to_rgb ''#aabbcc'' = Inr (170, 187, 204) \<and>
   rgb_to_hex (170, 187, 204) \<noteq> ''#AABBCC''"
proof (intro conjI)
  show "valid_hex_color ''#AABBCC''" by (simp add: valid_hex_color_def is_hexdigit_def)
  show "hex_to_rgb ''#AABBCC'' = Inr (170, 187, 204)"
    by (simp add: hex_to_rgb_def int16_pair_def is_hexdigit_def hex_val_def)
  show "hex_to_rgb ''#aabbcc'' = Inr (170, 187, 204)"
    by (simp add: hex_to_rgb_def int16_pair_def is_hexdigit_def hex_val_def)
  show "rgb_to_hex (170, 187, 204) \<noteq> ''#AABBCC''"
    by (simp add: rgb_to_hex_def hex2_def hex_digit_char_def)
qed

section \<open>Lemmas on the substitutions\<close>


lemma first_match_iff:
  "first_match m s pre mid post \<longleftrightarrow>
     s = pre @ mid @ post \<and> m (mid @ post) = Some (length mid) \<and>
     (\<forall>k<length pre. m (drop k s) = None)"
  by (auto simp: first_match_def list_all_iff)








lemma first_matchD:
  assumes "first_match m s pre mid post"
  shows "s = pre @ mid @ post" and "m (mid @ post) = Some (length mid)"
    and "\<forall>k<length pre. m (drop k s) = None"
proof -
  from assms have a: "s = pre @ mid @ post \<and> m (mid @ post) = Some (length mid) \<and>
      (\<forall>k<length pre. m (drop k s) = None)" unfolding first_match_iff .
  from a show "s = pre @ mid @ post" by (rule conjunct1)
  from a have b: "m (mid @ post) = Some (length mid) \<and> (\<forall>k<length pre. m (drop k s) = None)"
    by (rule conjunct2)
  from b show "m (mid @ post) = Some (length mid)" by (rule conjunct1)
  from b show "\<forall>k<length pre. m (drop k s) = None" by (rule conjunct2)
qed

lemma first_match_unique:
  assumes "first_match m s pre mid post" "first_match m s pre' mid' post'"
  shows "pre' = pre \<and> mid' = mid \<and> post' = post"
proof -
  note s1 = first_matchD(1) [OF assms(1)] and m1 = first_matchD(2) [OF assms(1)]
    and n1 = first_matchD(3) [OF assms(1)]
  note s2 = first_matchD(1) [OF assms(2)] and m2 = first_matchD(2) [OF assms(2)]
    and n2 = first_matchD(3) [OF assms(2)]
  have d1: "drop (length pre) s = mid @ post" by (subst s1) simp
  have d2: "drop (length pre') s = mid' @ post'" by (subst s2) simp
  have l: "length pre = length pre'"
  proof (rule ccontr)
    assume "length pre \<noteq> length pre'"
    then consider "length pre < length pre'" | "length pre' < length pre" by linarith
    then show False
    proof cases
      case 1
      with n2 have "m (drop (length pre) s) = None" by blast
      with d1 m1 show False by simp
    next
      case 2
      with n1 have "m (drop (length pre') s) = None" by blast
      with d2 m2 show False by simp
    qed
  qed
  from s1 s2 have e: "pre @ mid @ post = pre' @ mid' @ post'" by (rule subst)
  with l have p: "pre = pre'" and r: "mid @ post = mid' @ post'" by simp_all
  from m1 m2 r have "length mid = length mid'" by simp
  with r p show ?thesis by simp
qed






section \<open>Lemmas on the patterns and the file updates\<close>

lemma strip_prefix_iff: "strip_prefix p s = Some r \<longleftrightarrow> s = p @ r"
  by (induction p s rule: strip_prefix.induct) auto

lemma strip_prefix_append: "strip_prefix p (p @ r) = Some r"
  by (simp add: strip_prefix_iff)






lemma match_color_entry_iff:
  "match_color_entry s = Some n \<longleftrightarrow>
     n = 18 \<and> (\<exists>h rest. s = color_entry_head @ h @ CHR 0x27 # rest \<and> length h = 6 \<and>
                  list_all is_hexdigit h)"
proof
  assume a: "match_color_entry s = Some n"
  then obtain r where r: "s = color_entry_head @ r"
    by (auto simp: match_color_entry_def strip_prefix_iff split: option.splits)
  with a have n: "n = 18" and l: "7 \<le> length r" and h: "list_all is_hexdigit (take 6 r)"
    and q: "r ! 6 = CHR 0x27"
    by (auto simp: match_color_entry_def strip_prefix_append split: if_splits)
  from l have "r = take 6 r @ r ! 6 # drop 7 r"
    by (metis Cons_nth_drop_Suc append_take_drop_id eval_nat_numeral(3) Suc_le_lessD numeral_plus_one
        semiring_norm(5) semiring_norm(2) One_nat_def)
  with r q l h n show "n = 18 \<and> (\<exists>h rest. s = color_entry_head @ h @ CHR 0x27 # rest \<and> length h = 6 \<and>
                  list_all is_hexdigit h)"
    by (intro conjI exI [of _ "take 6 r"] exI [of _ "drop 7 r"]) simp_all
next
  assume "n = 18 \<and> (\<exists>h rest. s = color_entry_head @ h @ CHR 0x27 # rest \<and> length h = 6 \<and>
                  list_all is_hexdigit h)"
  then show "match_color_entry s = Some n"
    by (auto simp: match_color_entry_def strip_prefix_append nth_append)
qed

lemma backslash_classes: "\<not> is_hexdigit (CHR 0x5C)" "\<not> is_space (CHR 0x5C)"
  by (simp_all add: is_hexdigit_def is_space_def)

lemma int16_pair_backslash:
  "int16_pair (CHR 0x5C) b = None" "int16_pair a (CHR 0x5C) = None"
  by (simp_all add: int16_pair_def backslash_classes)

lemma int16_pair_no_backslash:
  "int16_pair a b = Some v \<Longrightarrow> a \<noteq> CHR 0x5C \<and> b \<noteq> CHR 0x5C"
  using int16_pair_backslash by fastforce

lemma hex_to_rgb_no_backslash:
  assumes "hex_to_rgb s = Inr t"
  shows "CHR 0x5C \<notin> set s"
proof -
  let ?c = "dropWhile (\<lambda>c. c = CHR ''#'') s"
  from assms have l: "length ?c = 6"
    by (auto simp: hex_to_rgb_def Let_def split: if_splits)
  then obtain c0 c1 c2 c3 c4 c5 where c: "?c = [c0, c1, c2, c3, c4, c5]"
    by (auto simp: length_Suc_conv eval_nat_numeral)
  from assms l obtain r g b where "int16_pair (?c ! 0) (?c ! 1) = Some r"
    "int16_pair (?c ! 2) (?c ! 3) = Some g" "int16_pair (?c ! 4) (?c ! 5) = Some b"
    by (auto simp: hex_to_rgb_def Let_def split: if_splits option.splits)
  then have "int16_pair c0 c1 = Some r" "int16_pair c2 c3 = Some g" "int16_pair c4 c5 = Some b"
    unfolding c by simp_all
  then have "CHR 0x5C \<notin> set ?c"
    unfolding c by (auto dest: int16_pair_no_backslash)
  moreover have "CHR 0x5C \<notin> set (takeWhile (\<lambda>c. c = CHR ''#'') s)"
    by (auto dest: set_takeWhileD)
  moreover have "set s = set (takeWhile (\<lambda>c. c = CHR ''#'') s) \<union> set ?c"
    by (metis set_append takeWhile_dropWhile_id)
  ultimately show ?thesis by simp
qed

lemma update_css_Inl: "update_css accent_hex bg fs = (Inl e, fs') \<Longrightarrow> fs' = fs"
  by (auto simp: update_css_def split: sum.splits)

lemma update_css_Inr:
  "update_css accent_hex bg fs = (Inr u, fs') \<Longrightarrow>
     CHR 0x5C \<notin> set accent_hex \<and> config fs' = config fs"
  by (auto simp: update_css_def dest: hex_to_rgb_no_backslash split: sum.splits)

lemma update_config_Inl: "update_config accent_hex fs = (Inl e, fs') \<Longrightarrow> fs' = fs"
  by (auto simp: update_config_def split: if_splits prod.splits)

lemma update_config_error:
  "update_config accent_hex fs = (Inl e, fs') \<Longrightarrow> CHR 0x5C \<notin> set accent_hex \<Longrightarrow>
     e = PaletteError No_config_entries"
  by (auto simp: update_config_def split: if_splits prod.splits)

section \<open>Worked examples\<close>

lemmas text_eval =
  match_accent_def match_accent_rgb_def match_background_def match_color_entry_def
  color_entry_head_def is_rgb_char_def is_digit_def is_space_def is_hexdigit_def Let_def

lemmas format_eval =
  accent_replacement_def accent_rgb_replacement_def background_replacement_def
  color_entry_replacement_def show_int_def show_nat.simps digit_char_def

lemma hex_3a6ea5: "hex_to_rgb ''#3a6ea5'' = Inr (58, 110, 165)"
  by (simp add: hex_to_rgb_def int16_pair_def is_hexdigit_def hex_val_def)


lemma hex_121212: "hex_to_rgb ''#121212'' = Inr (18, 18, 18)"
  by (simp add: hex_to_rgb_def int16_pair_def is_hexdigit_def hex_val_def)

lemma css_step1:
  "subn_first match_accent (accent_replacement ''#3a6ea5'')
     ''--accent: #000000; --accent-rgb: 0, 0, 0; --yasb-background: rgba(0, 0, 0, 0.5);'' =
   (''--accent: #3a6ea5; --accent-rgb: 0, 0, 0; --yasb-background: rgba(0, 0, 0, 0.5);'', 1)"
  by (simp add: text_eval format_eval)

lemma css_step2:
  "subn_first match_accent_rgb (accent_rgb_replacement (58, 110, 165))
     ''--accent: #3a6ea5; --accent-rgb: 0, 0, 0; --yasb-background: rgba(0, 0, 0, 0.5);'' =
   (''--accent: #3a6ea5; --accent-rgb: 58, 110, 165; --yasb-background: rgba(0, 0, 0, 0.5);'', 1)"
  by (simp add: text_eval format_eval)

lemma css_step3:
  "subn_first match_background (background_replacement (18, 18, 18))
     ''--accent: #3a6ea5; --accent-rgb: 58, 110, 165; --yasb-background: rgba(0, 0, 0, 0.5);'' =
   (''--accent: #3a6ea5; --accent-rgb: 58, 110, 165; --yasb-background: rgba(18, 18, 18, 0.72);'', 1)"
  by (simp add: text_eval format_eval)

lemma css_example:
  "update_css ''#3a6ea5'' (18, 18, 18)
     \<lparr>css = ''--accent: #000000; --accent-rgb: 0, 0, 0; --yasb-background: rgba(0, 0, 0, 0.5);'',
      config = ''bar: {}''\<rparr> =
   (Inr (),
    \<lparr>css = ''--accent: #3a6ea5; --accent-rgb: 58, 110, 165; --yasb-background: rgba(18, 18, 18, 0.72);'',
     config = ''bar: {}''\<rparr>)"
  by (simp add: update_css_def hex_3a6ea5 replacements_def css_step1 css_step2 css_step3
      del: subn_first.simps)

lemma config_example:
  "update_config ''#3a6ea5''
     \<lparr>css = ''--accent: #3a6ea5; --accent-rgb: 58, 110, 165; --yasb-background: rgba(18, 18, 18, 0.72);'',
      config = ''bar: {}''\<rparr> =
   (Inl (PaletteError No_config_entries),
    \<lparr>css = ''--accent: #3a6ea5; --accent-rgb: 58, 110, 165; --yasb-background: rgba(18, 18, 18, 0.72);'',
      config = ''bar: {}''\<rparr>)"
  by (simp add: update_config_def text_eval format_eval)

lemma accent_example:
  "choose_accent None [''color4'' \<mapsto> ''#3A6EA5''] [''background'' \<mapsto> ''#121212''] (18, 18, 18) =
     Inr ''#3A6EA5''"
  by (simp add: accent_eval)

lemma lower_example: "lower ''#3A6EA5'' = ''#3a6ea5''"
  by (simp add: lower_def lower_char_def char_of_def bit_0)

lemma main_example:
  "main None
     (Inr [''colors'' \<mapsto> [''color4'' \<mapsto> ''#3A6EA5''],
           ''special'' \<mapsto> [''background'' \<mapsto> ''#121212'']])
     \<lparr>css = ''--accent: #000000; --accent-rgb: 0, 0, 0; --yasb-background: rgba(0, 0, 0, 0.5);'',
      config = ''bar: {}''\<rparr> =
   (Returned 1,
    \<lparr>css = ''--accent: #3a6ea5; --accent-rgb: 58, 110, 165; --yasb-background: rgba(18, 18, 18, 0.72);'',
     config = ''bar: {}''\<rparr>)"
proof -
  have ne: "[''color4'' \<mapsto> ''#3A6EA5''] \<noteq> Map.empty" by simp
  show ?thesis
    unfolding main_def
    by (simp add: ne truthy_def hex_121212 accent_example lower_example css_example config_example)
qed






section \<open>Properties of the file updates\<close>






text \<open>
  C5, as amended. When \<open>main\<close> returns 0, both files have been updated. When it does
  not, the widget configuration is unchanged, and either the stylesheet is unchanged as
  well, or the stylesheet has been rewritten and \<open>update_config\<close> then raised
  \<^verbatim>\<open>PaletteError\<close> for lack of a colour entry.
\<close>

theorem main_failure_states:
  assumes "main env_slot loaded fs = (out, fs')"
  shows "(out = Returned 0 \<longrightarrow>
           (\<exists>accent_hex bg fs1 count.
              update_css accent_hex bg fs = (Inr (), fs1) \<and>
              update_config accent_hex fs1 = (Inr count, fs'))) \<and>
         (out \<noteq> Returned 0 \<longrightarrow>
           config fs' = config fs \<and>
           (fs' = fs \<or>
            (\<exists>accent_hex bg.
               update_css accent_hex bg fs = (Inr (), fs') \<and>
               update_config accent_hex fs' = (Inl (PaletteError No_config_entries), fs') \<and>
               out = Returned 1)))"
proof (cases loaded)
  case (Inl f)
  with assms show ?thesis by (auto simp: main_def)
next
  case (Inr palette)
  define colors where "colors = (case palette ''colors'' of None \<Rightarrow> Map.empty | Some c \<Rightarrow> c)"
  define special where "special = (case palette ''special'' of None \<Rightarrow> Map.empty | Some s \<Rightarrow> s)"
  have m: "main env_slot loaded fs =
    (if colors = Map.empty then (Returned 1, fs)
     else if \<not> truthy (special ''background'') then (Returned 1, fs)
     else
       (case hex_to_rgb (the (special ''background'')) of
          Inl (PaletteError f) \<Rightarrow> (Returned 1, fs)
        | Inl e \<Rightarrow> (Uncaught e, fs)
        | Inr background_rgb \<Rightarrow>
       (case choose_accent env_slot colors special background_rgb of
          Inl (PaletteError f) \<Rightarrow> (Returned 1, fs)
        | Inl e \<Rightarrow> (Uncaught e, fs)
        | Inr accent_hex \<Rightarrow>
       (case update_css (lower accent_hex) background_rgb fs of
          (Inl (PaletteError f), fs1) \<Rightarrow> (Returned 1, fs1)
        | (Inl e, fs1) \<Rightarrow> (Uncaught e, fs1)
        | (Inr u, fs1) \<Rightarrow>
       (case update_config (lower accent_hex) fs1 of
          (Inl (PaletteError f), fs2) \<Rightarrow> (Returned 1, fs2)
        | (Inl e, fs2) \<Rightarrow> (Uncaught e, fs2)
        | (Inr count, fs2) \<Rightarrow> (Returned 0, fs2))))))"
    unfolding main_def Inr colors_def special_def by (simp add: Let_def)
  note a = assms [unfolded m]
  show ?thesis
  proof (cases "colors = Map.empty \<or> \<not> truthy (special ''background'')")
    case True
    with a show ?thesis by (auto split: if_splits)
  next
    case False
    show ?thesis
    proof (cases "hex_to_rgb (the (special ''background''))")
      case (Inl e)
      with a False show ?thesis by (cases e) auto
    next
      case bg: (Inr background_rgb)
      show ?thesis
      proof (cases "choose_accent env_slot colors special background_rgb")
        case (Inl e)
        with a False bg show ?thesis by (cases e) auto
      next
        case acc: (Inr accent_hex)
        obtain r1 fs1 where u: "update_css (lower accent_hex) background_rgb fs = (r1, fs1)"
          by (cases "update_css (lower accent_hex) background_rgb fs")
        show ?thesis
        proof (cases r1)
          case (Inl e)
          with u have "fs1 = fs" by (auto dest: update_css_Inl)
          with a False bg acc u Inl show ?thesis by (cases e) auto
        next
          case r1: (Inr x)
          from u r1 have nb: "CHR 0x5C \<notin> set (lower accent_hex)" and c1: "config fs1 = config fs"
            by (auto dest: update_css_Inr)
          from u r1 have u': "update_css (lower accent_hex) background_rgb fs = (Inr (), fs1)" by simp
          obtain r2 fs2 where g: "update_config (lower accent_hex) fs1 = (r2, fs2)"
            by (cases "update_config (lower accent_hex) fs1")
          show ?thesis
          proof (cases r2)
            case (Inl e)
            with g have same: "fs2 = fs1" by (auto dest: update_config_Inl)
            from g Inl nb have e: "e = PaletteError No_config_entries"
              by (auto dest: update_config_error)
            from a False bg acc u r1 g Inl e same
            have o: "out = Returned 1" "fs' = fs1" by auto
            have "\<exists>accent_hex bg.
               update_css accent_hex bg fs = (Inr (), fs') \<and>
               update_config accent_hex fs' = (Inl (PaletteError No_config_entries), fs') \<and>
               out = Returned 1"
              using u' g Inl e same o by blast
            with o c1 show ?thesis by simp
          next
            case (Inr count)
            with a False bg acc u r1 g have o: "out = Returned 0" "fs' = fs2" by auto
            have "\<exists>accent_hex bg fs1 count.
              update_css accent_hex bg fs = (Inr (), fs1) \<and>
              update_config accent_hex fs1 = (Inr count, fs')"
              using u' g Inr o by blast
            with o show ?thesis by simp
          qed
        qed
      qed
    qed
  qed
qed

theorem main_failure_states_witness:
  "config \<lparr>css = ''--accent: #3a6ea5; --accent-rgb: 58, 110, 165; --yasb-background: rgba(18, 18, 18, 0.72);'',
            config = ''bar: {}''\<rparr> = ''bar: {}'' \<and>
   (\<exists>accent_hex bg.
      update_css accent_hex bg
        \<lparr>css = ''--accent: #000000; --accent-rgb: 0, 0, 0; --yasb-background: rgba(0, 0, 0, 0.5);'',
         config = ''bar: {}''\<rparr> =
        (Inr (),
         \<lparr>css = ''--accent: #3a6ea5; --accent-rgb: 58, 110, 165; --yasb-background: rgba(18, 18, 18, 0.72);'',
          config = ''bar: {}''\<rparr>) \<and>
      update_config accent_hex
        \<lparr>css = ''--accent: #3a6ea5; --accent-rgb: 58, 110, 165; --yasb-background: rgba(18, 18, 18, 0.72);'',
         config = ''bar: {}''\<rparr> =
        (Inl (PaletteError No_config_entries),
         \<lparr>css = ''--accent: #3a6ea5; --accent-rgb: 58, 110, 165; --yasb-background: rgba(18, 18, 18, 0.72);'',
          config = ''bar: {}''\<rparr>))"
  using main_failure_states [OF main_example] by simp

theorem main_failure_states_counterexample:
  "main None
     (Inr [''colors'' \<mapsto> [''color4'' \<mapsto> ''#3A6EA5''],
           ''special'' \<mapsto> [''background'' \<mapsto> ''#121212'']])
     \<lparr>css = ''--accent: #000000; --accent-rgb: 0, 0, 0; --yasb-background: rgba(0, 0, 0, 0.5);'',
      config = ''bar: {}''\<rparr> =
   (Returned 1,
    \<lparr>css = ''--accent: #3a6ea5; --accent-rgb: 58, 110, 165; --yasb-background: rgba(18, 18, 18, 0.72);'',
     config = ''bar: {}''\<rparr>)"
  by (rule main_example)

end
